theory Spec2Isabelle
  imports Complex_Main
begin

section \<open>Data model\<close>

text \<open>
  The types of \<^verbatim>\<open>page.tsx\<close>. A TypeScript \<^verbatim>\<open>number\<close> that enters arithmetic
  (coordinates, citation counts) is a \<^typ>\<open>real\<close>; a \<^verbatim>\<open>number\<close> that is only an
  identifier (a cluster id) is an \<^typ>\<open>int\<close>; \<^verbatim>\<open>T | null\<close> is \<^typ>\<open>'a option\<close>.
  Field names of the source that two interfaces share are prefixed by the interface
  (\<open>node_\<close>, \<open>cat_\<close>, \<open>cl_\<close>, \<open>link_\<close>, \<open>paper_\<close>), since a record field is a constant.
\<close>

record Paper =
  arxiv_id :: string
  title :: string
  abstract :: string
  authors :: "string list"
  published :: string
  pdf_url :: string
  paper_categories :: "string list"
  cluster :: "int option"
  cluster_name :: "string option"
  paper_x :: "real option"
  paper_y :: "real option"
  neighbors :: "string list option"
  citation_count :: real
  references :: "string list option"

record Category =
  cat_id :: int
  cat_name :: string
  cat_description :: string
  cat_color :: string
  cat_count :: int

record CitationLink =
  cl_source :: string
  cl_target :: string

text \<open>
  \<^verbatim>\<open>cluster: p.cluster!\<close> only silences the type checker: a paper whose cluster is
  \<^verbatim>\<open>null\<close> gives a node whose cluster is \<^verbatim>\<open>null\<close>, so the node's field is an option
  too. \<^verbatim>\<open>fx, fy, vx, vy\<close> are optional fields the builder never sets.
\<close>

record GraphNode =
  node_id :: string
  node_title :: string
  node_abstract :: string
  node_authors :: "string list"
  node_published :: string
  node_cluster :: "int option"
  node_cluster_name :: string
  node_color :: string
  node_x :: real
  node_y :: real
  node_fx :: "real option"
  node_fy :: "real option"
  node_citation_count :: real
  pulse_intensity :: real
  node_vx :: "real option"
  node_vy :: "real option"

text \<open>\<^verbatim>\<open>source: string | GraphNode\<close>: a link end is a raw id or a resolved node.\<close>

datatype endpoint = EId string | ERef GraphNode

record GraphLink =
  link_source :: endpoint
  link_target :: endpoint
  isCitation :: "bool option"

record GraphData =
  nodes :: "GraphNode list"
  links :: "GraphLink list"

text \<open>\<^verbatim>\<open>typeof e === 'string' ? e : e.id\<close>\<close>

fun endpoint_id :: "endpoint \<Rightarrow> string" where
  "endpoint_id (EId s) = s"
| "endpoint_id (ERef n) = node_id n"

section \<open>Graph data builder\<close>

text \<open>
  \<^verbatim>\<open>new Map(categories.map((c) => [c.id, c.color]))\<close>: entries are inserted in order, a
  later entry for the same id replaces the earlier one.
\<close>

definition colorMap :: "Category list \<Rightarrow> (int \<rightharpoonup> string)" where
  "colorMap cats = fold (\<lambda>c m. m(cat_id c \<mapsto> cat_color c)) cats Map.empty"

definition nameMap :: "Category list \<Rightarrow> (int \<rightharpoonup> string)" where
  "nameMap cats = fold (\<lambda>c m. m(cat_id c \<mapsto> cat_name c)) cats Map.empty"

text \<open>\<^verbatim>\<open>m.get(p.cluster!)\<close>: no category has the id \<^verbatim>\<open>null\<close>.\<close>

definition map_get :: "(int \<rightharpoonup> string) \<Rightarrow> int option \<Rightarrow> string option" where
  "map_get m k = (case k of None \<Rightarrow> None | Some c \<Rightarrow> m c)"

text \<open>
  \<^verbatim>\<open>a || b\<close> on strings that may be \<^verbatim>\<open>null\<close> or \<^verbatim>\<open>undefined\<close>: the empty string is
  falsy as well.
\<close>

definition js_or :: "string option \<Rightarrow> string option \<Rightarrow> string option" where
  "js_or a b = (case a of None \<Rightarrow> b | Some s \<Rightarrow> if s \<noteq> [] then Some s else b)"

definition js_or_lit :: "string option \<Rightarrow> string \<Rightarrow> string" where
  "js_or_lit a d = (case a of None \<Rightarrow> d | Some s \<Rightarrow> if s \<noteq> [] then s else d)"

definition scale :: real where
  "scale = 600"

definition has_coords :: "Paper \<Rightarrow> bool" where
  "has_coords p = (paper_x p \<noteq> None \<and> paper_y p \<noteq> None)"

definition make_node :: "Category list \<Rightarrow> real \<Rightarrow> Paper \<Rightarrow> GraphNode" where
  "make_node cats maxCitations p =
     \<lparr> node_id = arxiv_id p,
       node_title = title p,
       node_abstract = abstract p,
       node_authors = authors p,
       node_published = published p,
       node_cluster = cluster p,
       node_cluster_name =
         js_or_lit (js_or (cluster_name p) (map_get (nameMap cats) (cluster p))) ''Unknown'',
       node_color = js_or_lit (map_get (colorMap cats) (cluster p)) ''#666'',
       node_x = the (paper_x p) * scale,
       node_y = the (paper_y p) * scale,
       node_fx = None,
       node_fy = None,
       node_citation_count = citation_count p,
       pulse_intensity =
         (if maxCitations > 0 then min 1 (citation_count p / maxCitations) else 0),
       node_vx = None,
       node_vy = None \<rparr>"

definition build_nodes :: "Paper list \<Rightarrow> Category list \<Rightarrow> real \<Rightarrow> GraphNode list" where
  "build_nodes papers cats maxCitations =
     map (make_node cats maxCitations) (filter has_coords papers)"

text \<open>The predicate of \<^verbatim>\<open>links.find\<close>: the link joins the two ids, in either direction.\<close>

definition link_between :: "string \<Rightarrow> string \<Rightarrow> GraphLink \<Rightarrow> bool" where
  "link_between a b l =
     ((endpoint_id (link_source l) = a \<and> endpoint_id (link_target l) = b) \<or>
      (endpoint_id (link_source l) = b \<and> endpoint_id (link_target l) = a))"

text \<open>The body of the inner \<^verbatim>\<open>forEach\<close> over one paper's neighbours.\<close>

definition add_neighbor :: "string set \<Rightarrow> string \<Rightarrow> string \<Rightarrow> GraphLink list \<Rightarrow> GraphLink list" where
  "add_neighbor nodeIds paperId neighborId acc =
     (if neighborId \<notin> nodeIds then acc
      else if list_ex (link_between paperId neighborId) acc then acc
      else acc @ [\<lparr> link_source = EId paperId, link_target = EId neighborId,
                    isCitation = Some False \<rparr>])"

text \<open>The body of the outer \<^verbatim>\<open>forEach\<close>: a paper whose neighbours are \<^verbatim>\<open>null\<close> is skipped.\<close>

definition add_similarity :: "string set \<Rightarrow> Paper \<Rightarrow> GraphLink list \<Rightarrow> GraphLink list" where
  "add_similarity nodeIds paper acc =
     (case neighbors paper of
        None \<Rightarrow> acc
      | Some ns \<Rightarrow> fold (add_neighbor nodeIds (arxiv_id paper)) ns acc)"

definition similarity_links :: "string set \<Rightarrow> Paper list \<Rightarrow> GraphLink list" where
  "similarity_links nodeIds papers = fold (add_similarity nodeIds) papers []"

definition add_citation :: "string set \<Rightarrow> CitationLink \<Rightarrow> GraphLink list \<Rightarrow> GraphLink list" where
  "add_citation nodeIds cl acc =
     (if cl_source cl \<in> nodeIds \<and> cl_target cl \<in> nodeIds
      then acc @ [\<lparr> link_source = EId (cl_source cl), link_target = EId (cl_target cl),
                    isCitation = Some True \<rparr>]
      else acc)"

definition buildGraphData ::
  "Paper list \<Rightarrow> Category list \<Rightarrow> CitationLink list \<Rightarrow> real \<Rightarrow> GraphData" where
  "buildGraphData papers cats citationLinks maxCitations =
     (let ns = build_nodes papers cats maxCitations;
          nodeIds = set (map node_id ns);
          sim = similarity_links nodeIds papers
      in \<lparr> nodes = ns, links = fold (add_citation nodeIds) citationLinks sim \<rparr>)"

section \<open>Component state\<close>

text \<open>
  The \<^verbatim>\<open>useState\<close> and \<^verbatim>\<open>useRef\<close> cells of \<^verbatim>\<open>Home\<close> that the handlers below read or
  write, under their own names. \<^verbatim>\<open>console\<close> collects the calls of \<^verbatim>\<open>console.error\<close>
  (label, detail); \<^verbatim>\<open>parseJobs\<close> holds the suspended continuations of the parse jobs
  (the \<^verbatim>\<open>async\<close> callbacks waiting in an \<^verbatim>\<open>await\<close>).
\<close>

datatype Role = User | Assistant

record ChatMessage =
  role :: Role
  content :: string

text \<open>
  A parse job waits either for the answer to its submission (paper id, document url) or
  for the answer to poll number \<open>i\<close> of the loop (paper id, job id, \<open>i\<close>).
\<close>

datatype ParseJob =
    AwaitSubmit string string
  | AwaitPoll string string nat

record Home =
  query :: string
  paperCount :: nat
  isLoading :: bool
  loadingStatus :: string
  graphData :: "GraphData option"
  papers :: "Paper list"
  categories :: "Category list"
  expandedQueries :: "string list"
  maxCitations :: real
  dateFilter :: string
  visibleClusters :: "int set"
  chatOpen :: bool
  chatMessages :: "ChatMessage list"
  chatInput :: string
  chatLoading :: bool
  webSearchEnabled :: bool
  contextPapers :: "GraphNode list"
  draggingNode :: "GraphNode option"
  dragScreenPos :: "(real \<times> real) option"
  isNearDock :: bool
  parsedPapers :: "string set"
  parsingPapers :: "string set"
  dragStartPos :: "(real \<times> real) option"
  draggingNodeRef :: "GraphNode option"
  isNearDockRef :: bool
  prevContextPapersRef :: "string list"
  console :: "(string \<times> string) list"
  parseJobs :: "ParseJob list"

text \<open>The initial values given to \<^verbatim>\<open>useState\<close> and \<^verbatim>\<open>useRef\<close>.\<close>

definition initial_Home :: Home where
  "initial_Home =
     \<lparr> query = [], paperCount = 200, isLoading = False, loadingStatus = [],
       graphData = None, papers = [], categories = [], expandedQueries = [],
       maxCitations = 0, dateFilter = ''all'', visibleClusters = {},
       chatOpen = False, chatMessages = [], chatInput = [], chatLoading = False,
       webSearchEnabled = True, contextPapers = [], draggingNode = None,
       dragScreenPos = None, isNearDock = False, parsedPapers = {}, parsingPapers = {},
       dragStartPos = None, draggingNodeRef = None, isNearDockRef = False,
       prevContextPapersRef = [], console = [], parseJobs = [] \<rparr>"

text \<open>
  \<^verbatim>\<open>!s.trim()\<close>: the string is empty once \<^verbatim>\<open>String.prototype.trim\<close> has stripped it, that
  is, every code point of it is white space or a line terminator of ECMAScript: U+0009 to
  U+000D, U+0020, U+00A0, U+1680, U+2000 to U+200A, U+2028, U+2029, U+202F, U+205F, U+3000
  and U+FEFF. A string is its UTF-8 bytes here, so the code points up to U+0020 are one byte
  (\<open>is_space\<close>), U+00A0 is the two bytes C2 A0, and the others are three bytes
  (\<open>is_space3\<close>).
\<close>

definition is_space :: "char \<Rightarrow> bool" where
  "is_space c = (c \<in> {CHR 0x09, CHR 0x0A, CHR 0x0B, CHR 0x0C, CHR 0x0D, CHR 0x20})"

definition is_space3 :: "char \<Rightarrow> char \<Rightarrow> char \<Rightarrow> bool" where
  "is_space3 c d e =
     ((c = CHR 0xE1 \<and> d = CHR 0x9A \<and> e = CHR 0x80) \<or>
      (c = CHR 0xE2 \<and> d = CHR 0x80 \<and>
         e \<in> {CHR 0x80, CHR 0x81, CHR 0x82, CHR 0x83, CHR 0x84, CHR 0x85, CHR 0x86, CHR 0x87,
              CHR 0x88, CHR 0x89, CHR 0x8A, CHR 0xA8, CHR 0xA9, CHR 0xAF}) \<or>
      (c = CHR 0xE2 \<and> d = CHR 0x81 \<and> e = CHR 0x9F) \<or>
      (c = CHR 0xE3 \<and> d = CHR 0x80 \<and> e = CHR 0x80) \<or>
      (c = CHR 0xEF \<and> d = CHR 0xBB \<and> e = CHR 0xBF))"

fun blank :: "string \<Rightarrow> bool" where
  "blank [] = True"
| "blank [c] = is_space c"
| "blank [c, d] = (if is_space c then blank [d] else c = CHR 0xC2 \<and> d = CHR 0xA0)"
| "blank (c # d # e # cs) =
     (if is_space c then blank (d # e # cs)
      else if c = CHR 0xC2 \<and> d = CHR 0xA0 then blank (e # cs)
      else if is_space3 c d e then blank cs
      else False)"

text \<open>\<^verbatim>\<open>papers.find((p) => p.arxiv_id === id)\<close>\<close>

definition find_paper :: "Paper list \<Rightarrow> string \<Rightarrow> Paper option" where
  "find_paper ps i = List.find (\<lambda>p. arxiv_id p = i) ps"

section \<open>Filter engine\<close>

text \<open>
  \<^verbatim>\<open>dateFilterCutoff\<close>: the calendar arithmetic on \<^verbatim>\<open>new Date()\<close> is the parameter
  \<open>yearsAgo\<close>; a cutoff is a time stamp, \<^verbatim>\<open>null\<close> for every other filter value.
\<close>

definition dateFilterCutoff :: "(nat \<Rightarrow> int) \<Rightarrow> string \<Rightarrow> int option" where
  "dateFilterCutoff yearsAgo df =
     (if df = ''1y'' then Some (yearsAgo 1)
      else if df = ''2y'' then Some (yearsAgo 2)
      else if df = ''5y'' then Some (yearsAgo 5)
      else None)"

text \<open>
  \<^verbatim>\<open>new Date(paper.published) < dateFilterCutoff\<close>: \<open>parseDate\<close> is the parameter for the
  date parser, \<open>None\<close> for an invalid date, whose time value \<^verbatim>\<open>NaN\<close> compares false.
\<close>

definition date_before :: "(string \<Rightarrow> int option) \<Rightarrow> string \<Rightarrow> int \<Rightarrow> bool" where
  "date_before parseDate s cutoff =
     (case parseDate s of None \<Rightarrow> False | Some t \<Rightarrow> t < cutoff)"

text \<open>The predicate of \<^verbatim>\<open>graphData.nodes.filter\<close>.\<close>

definition node_visible ::
  "int set \<Rightarrow> int option \<Rightarrow> (string \<Rightarrow> int option) \<Rightarrow> Paper list \<Rightarrow> GraphNode \<Rightarrow> bool" where
  "node_visible visible cutoff parseDate ps node =
     (if \<not> (case node_cluster node of None \<Rightarrow> False | Some c \<Rightarrow> c \<in> visible) then False
      else (case cutoff of
              None \<Rightarrow> True
            | Some c \<Rightarrow>
                (case find_paper ps (node_id node) of
                   None \<Rightarrow> True
                 | Some paper \<Rightarrow>
                     if date_before parseDate (published paper) c then False else True)))"

text \<open>The predicate of \<^verbatim>\<open>graphData.links.filter\<close>.\<close>

definition link_visible :: "string set \<Rightarrow> GraphLink \<Rightarrow> bool" where
  "link_visible nodeIds link =
     (endpoint_id (link_source link) \<in> nodeIds \<and> endpoint_id (link_target link) \<in> nodeIds)"

definition filteredGraphData ::
  "GraphData option \<Rightarrow> int set \<Rightarrow> int option \<Rightarrow> (string \<Rightarrow> int option) \<Rightarrow> Paper list
     \<Rightarrow> GraphData option" where
  "filteredGraphData gd visible cutoff parseDate ps =
     (case gd of
        None \<Rightarrow> None
      | Some g \<Rightarrow>
          (let filteredNodes = filter (node_visible visible cutoff parseDate ps) (nodes g);
               nodeIds = set (map node_id filteredNodes);
               filteredLinks = filter (link_visible nodeIds) (links g)
           in Some \<lparr> nodes = filteredNodes, links = filteredLinks \<rparr>))"

section \<open>Search coordinator\<close>

record SearchResult =
  res_papers :: "Paper list"
  res_categories :: "Category list"
  res_citation_links :: "CitationLink list"
  res_expanded_queries :: "string list"
  res_max_citations :: real

datatype search_outcome = SearchOk SearchResult | SearchThrow string

text \<open>
  \<^verbatim>\<open>handleSearch\<close> up to its first \<^verbatim>\<open>await\<close>: \<open>None\<close> when the guard returns at once.
\<close>

definition handleSearch_begin :: "Home \<Rightarrow> Home option" where
  "handleSearch_begin s =
     (if blank (query s) \<or> isLoading s then None
      else Some (s\<lparr> isLoading := True, graphData := None, papers := [], categories := [],
                     expandedQueries := [], dateFilter := ''all'',
                     loadingStatus := ''Searching the web...'' \<rparr>))"

text \<open>After the 300 ms pause, the state in which \<^verbatim>\<open>searchPapers\<close> is called.\<close>

definition handleSearch_call :: "Home \<Rightarrow> Home" where
  "handleSearch_call s = s\<lparr> loadingStatus := ''Expanding search queries...'' \<rparr>"

text \<open>The rest of \<^verbatim>\<open>handleSearch\<close>, once \<^verbatim>\<open>searchPapers\<close> has returned or thrown.\<close>

definition handleSearch_result :: "search_outcome \<Rightarrow> Home \<Rightarrow> Home" where
  "handleSearch_result outcome s =
     (case outcome of
        SearchThrow e \<Rightarrow>
          s\<lparr> console := console s @ [(''Search failed:'', e)],
             loadingStatus := ''Search failed'', isLoading := False \<rparr>
      | SearchOk r \<Rightarrow>
          if res_papers r = [] then s\<lparr> loadingStatus := ''No papers found'', isLoading := False \<rparr>
          else s\<lparr> expandedQueries := res_expanded_queries r,
                  papers := res_papers r,
                  categories := res_categories r,
                  maxCitations := res_max_citations r,
                  visibleClusters := set (map cat_id (res_categories r)),
                  graphData := Some (buildGraphData (res_papers r) (res_categories r)
                                       (res_citation_links r) (res_max_citations r)),
                  loadingStatus := [],
                  isLoading := False \<rparr>)"

text \<open>
  The state handed to the search collaborator by a search started in \<open>s\<close>, when no other
  handler runs during the pause.
\<close>

definition handleSearch_until_call :: "Home \<Rightarrow> Home option" where
  "handleSearch_until_call s = map_option handleSearch_call (handleSearch_begin s)"

section \<open>Context dock\<close>

definition dockZoneHeight :: real where
  "dockZoneHeight = 100"

text \<open>
  The updater handed to \<^verbatim>\<open>setContextPapers\<close> by both drop handlers:
  \<^verbatim>\<open>prev => prev.find(p => p.id === node.id) ? prev : [...prev, node]\<close>.
\<close>

definition add_to_context :: "GraphNode \<Rightarrow> GraphNode list \<Rightarrow> GraphNode list" where
  "add_to_context node prev =
     (if List.find (\<lambda>p. node_id p = node_id node) prev \<noteq> None then prev else prev @ [node])"

text \<open>
  \<open>coords\<close> is what \<^verbatim>\<open>graphRef.current.graph2ScreenCoords\<close> gives for the node, \<open>None\<close>
  when the graph is not mounted or the call gives \<^verbatim>\<open>null\<close>.
\<close>

definition onNodeDrag :: "GraphNode \<Rightarrow> (real \<times> real) option \<Rightarrow> Home \<Rightarrow> Home" where
  "onNodeDrag node coords s =
     (let s1 = s\<lparr> draggingNodeRef := Some node, draggingNode := Some node \<rparr>
      in case coords of
           None \<Rightarrow> s1
         | Some (cx, cy) \<Rightarrow>
             (let nearDock = (cy < dockZoneHeight + 50)
              in s1\<lparr> dragScreenPos := Some (cx, cy), isNearDock := nearDock,
                      isNearDockRef := nearDock \<rparr>))"

definition handleMouseUp :: "Home \<Rightarrow> Home" where
  "handleMouseUp s =
     (case draggingNodeRef s of
        None \<Rightarrow> s
      | Some node \<Rightarrow>
          (let s1 = (if isNearDockRef s
                     then s\<lparr> contextPapers := add_to_context node (contextPapers s) \<rparr>
                     else s)
           in s1\<lparr> draggingNode := None, dragScreenPos := None, isNearDock := False,
                   draggingNodeRef := None, isNearDockRef := False, dragStartPos := None \<rparr>))"

definition onNodeDragEnd :: "GraphNode \<Rightarrow> (real \<times> real) option \<Rightarrow> Home \<Rightarrow> Home" where
  "onNodeDragEnd graphNode coords s =
     (let s1 = (case coords of
                  None \<Rightarrow> s
                | Some (cx, cy) \<Rightarrow>
                    if cy < dockZoneHeight + 50
                    then s\<lparr> contextPapers := add_to_context graphNode (contextPapers s) \<rparr>
                    else s)
      in s1\<lparr> draggingNode := None, dragScreenPos := None, isNearDock := False,
              draggingNodeRef := None, isNearDockRef := False \<rparr>)"

definition removeFromContext :: "string \<Rightarrow> Home \<Rightarrow> Home" where
  "removeFromContext paperId s =
     s\<lparr> contextPapers := filter (\<lambda>p. node_id p \<noteq> paperId) (contextPapers s) \<rparr>"

section \<open>Context change effect and parse jobs\<close>

text \<open>
  The membership diff at the head of the effect: the context papers whose id the previous
  snapshot does not include, and the previous ids the current snapshot does not include.
\<close>

definition context_diff :: "string list \<Rightarrow> GraphNode list \<Rightarrow> GraphNode list \<times> string list" where
  "context_diff prevIds ctx =
     (let currentIds = map node_id ctx
      in (filter (\<lambda>p. node_id p \<notin> set prevIds) ctx,
          filter (\<lambda>i. i \<notin> set currentIds) prevIds))"

text \<open>The page emoji that opens both announcements, as its UTF-8 bytes.\<close>

definition doc_emoji :: string where
  "doc_emoji = [CHR 0xF0, CHR 0x9F, CHR 0x93, CHR 0x84]"

definition announce_added :: "GraphNode \<Rightarrow> Home \<Rightarrow> Home" where
  "announce_added paper s =
     s\<lparr> chatMessages := chatMessages s @
          [\<lparr> role = Assistant,
             content = doc_emoji @ '' **Paper added to context:** '' @ node_title paper \<rparr>] \<rparr>"

definition announce_removed :: "Paper list \<Rightarrow> string \<Rightarrow> Home \<Rightarrow> Home" where
  "announce_removed ps i s =
     (case find_paper ps i of
        None \<Rightarrow> s
      | Some paper \<Rightarrow>
          s\<lparr> chatMessages := chatMessages s @
               [\<lparr> role = Assistant,
                  content = doc_emoji @ '' **Paper removed from context:** '' @ title paper \<rparr>] \<rparr>)"

text \<open>
  The three updaters the jobs hand to \<^verbatim>\<open>setParsingPapers\<close> and \<^verbatim>\<open>setParsedPapers\<close>. The
  calls of one synchronous run are queued; the next render applies the queue in order, each
  updater to the result of the one before, and commits the outcome as the new state.
\<close>

datatype set_update = ParsingAdd string | ParsedAdd string | ParsingDelete string

fun apply_update :: "set_update \<Rightarrow> Home \<Rightarrow> Home" where
  "apply_update (ParsingAdd i) s = s\<lparr> parsingPapers := insert i (parsingPapers s) \<rparr>"
| "apply_update (ParsedAdd i) s = s\<lparr> parsedPapers := insert i (parsedPapers s) \<rparr>"
| "apply_update (ParsingDelete i) s = s\<lparr> parsingPapers := parsingPapers s - {i} \<rparr>"

definition apply_updates :: "set_update list \<Rightarrow> Home \<Rightarrow> Home" where
  "apply_updates us s = fold apply_update us s"

text \<open>
  The callback of \<^verbatim>\<open>added.forEach\<close> up to its first \<^verbatim>\<open>await\<close>. The guard reads the sets
  of the render the effect belongs to (\<open>parsed0\<close>, \<open>parsing0\<close>); the job then waits for the
  answer to its submission.
\<close>

definition start_parse ::
  "string set \<Rightarrow> string set \<Rightarrow> Paper list \<Rightarrow> GraphNode \<Rightarrow> Home \<Rightarrow> Home" where
  "start_parse parsed0 parsing0 ps paper s =
     (if node_id paper \<in> parsed0 \<or> node_id paper \<in> parsing0 then s
      else (let pdfUrl = js_or_lit (map_option pdf_url (find_paper ps (node_id paper)))
                           (''https://arxiv.org/pdf/'' @ node_id paper @ ''.pdf'')
            in (apply_update (ParsingAdd (node_id paper)) s)
                 \<lparr> parseJobs := parseJobs s @ [AwaitSubmit (node_id paper) pdfUrl] \<rparr>))"

definition context_effect :: "Home \<Rightarrow> Home" where
  "context_effect s =
     (let currentIds = map node_id (contextPapers s);
          prevIds = prevContextPapersRef s;
          added = fst (context_diff prevIds (contextPapers s));
          removed = snd (context_diff prevIds (contextPapers s));
          s1 = (if chatMessages s \<noteq> [] \<or> chatOpen s
                then fold (announce_removed (papers s)) removed (fold announce_added added s)
                else s);
          s2 = fold (start_parse (parsedPapers s) (parsingPapers s) (papers s)) added s1
      in s2\<lparr> prevContextPapersRef := currentIds \<rparr>)"

text \<open>
  What a job can be told at an \<^verbatim>\<open>await\<close>. A submission: the response is not ok, the call
  throws, or the body carries \<^verbatim>\<open>cached\<close>, \<^verbatim>\<open>status\<close> and \<^verbatim>\<open>job_id\<close>. A poll likewise, with
  \<^verbatim>\<open>status\<close> and \<^verbatim>\<open>error\<close>.
\<close>

datatype submit_response = SubmitNotOk | SubmitThrow string | SubmitOk bool string string

datatype poll_response = PollNotOk | PollThrow string | PollOk string string

definition maxPolls :: nat where
  "maxPolls = 300"

text \<open>
  One synchronous run of a job from an \<^verbatim>\<open>await\<close> to the next one or to its end, the
  \<^verbatim>\<open>finally\<close> block included: the updates in the order the code makes them, the lines it
  logs, and the job's next wait (\<open>None\<close> when it has ended).
\<close>

type_synonym job_run = "set_update list \<times> (string \<times> string) list \<times> ParseJob option"

definition on_submit_response :: "string \<Rightarrow> submit_response \<Rightarrow> job_run" where
  "on_submit_response pid r =
     (case r of
        SubmitNotOk \<Rightarrow>
          ([ParsingDelete pid],
           [(''Failed to pre-parse paper '' @ pid @ '':'', ''Failed to start parse job'')], None)
      | SubmitThrow e \<Rightarrow>
          ([ParsingDelete pid], [(''Failed to pre-parse paper '' @ pid @ '':'', e)], None)
      | SubmitOk cached status jobId \<Rightarrow>
          if cached \<or> status = ''completed''
          then ([ParsedAdd pid, ParsingDelete pid, ParsingDelete pid], [], None)
          else if 0 < maxPolls then ([], [], Some (AwaitPoll pid jobId 0))
          else ([ParsingDelete pid], [], None))"

definition on_poll_response :: "string \<Rightarrow> string \<Rightarrow> nat \<Rightarrow> poll_response \<Rightarrow> job_run" where
  "on_poll_response pid jobId i r =
     (case r of
        PollNotOk \<Rightarrow>
          ([ParsingDelete pid],
           [(''Failed to pre-parse paper '' @ pid @ '':'', ''Failed to get parse status'')], None)
      | PollThrow e \<Rightarrow>
          ([ParsingDelete pid], [(''Failed to pre-parse paper '' @ pid @ '':'', e)], None)
      | PollOk status err \<Rightarrow>
          if status = ''completed'' then ([ParsedAdd pid, ParsingDelete pid], [], None)
          else if status = ''failed''
          then ([ParsingDelete pid], [(''Parse failed for '' @ pid @ '': '' @ err, [])], None)
          else if Suc i < maxPolls then ([], [], Some (AwaitPoll pid jobId (Suc i)))
          else ([ParsingDelete pid], [], None))"

text \<open>The state once job \<open>k\<close> has made the run \<open>r\<close>.\<close>

definition resume :: "nat \<Rightarrow> job_run \<Rightarrow> Home \<Rightarrow> Home" where
  "resume k r s =
     (case r of (us, logs, next) \<Rightarrow>
        (apply_updates us s)
          \<lparr> console := console s @ logs,
            parseJobs := (case next of
                            None \<Rightarrow> take k (parseJobs s) @ drop (Suc k) (parseJobs s)
                          | Some j \<Rightarrow> (parseJobs s)[k := j]) \<rparr>)"

text \<open>
  The orchestration between two suspension points: the effect runs, or one waiting job gets
  an answer and runs to its next \<^verbatim>\<open>await\<close> or to its end, or some other handler runs, none
  of which writes the two sets or holds a job.
\<close>

inductive orchestrate :: "Home \<Rightarrow> Home \<Rightarrow> bool" where
  effect: "orchestrate s (context_effect s)"
| submitted:
    "k < length (parseJobs s) \<Longrightarrow> parseJobs s ! k = AwaitSubmit pid url \<Longrightarrow>
     orchestrate s (resume k (on_submit_response pid r) s)"
| polled:
    "k < length (parseJobs s) \<Longrightarrow> parseJobs s ! k = AwaitPoll pid jobId i \<Longrightarrow>
     orchestrate s (resume k (on_poll_response pid jobId i r) s)"
| other:
    "parsedPapers s' = parsedPapers s \<Longrightarrow> parsingPapers s' = parsingPapers s \<Longrightarrow>
     parseJobs s' = parseJobs s \<Longrightarrow> orchestrate s s'"

definition reachable :: "Home \<Rightarrow> bool" where
  "reachable s = orchestrate\<^sup>*\<^sup>* initial_Home s"

section \<open>Chat session\<close>

record PaperContext =
  ctx_arxiv_id :: string
  ctx_title :: string
  ctx_abstract :: string
  ctx_pdf_url :: string

record ChatRequest =
  req_message :: string
  req_papers :: "PaperContext list"
  req_history :: "ChatMessage list"
  req_parse_pdfs :: bool
  req_use_web_search :: bool

datatype chat_outcome = ChatOk string | ChatNotOk string | ChatThrow string

definition paperContexts :: "Paper list \<Rightarrow> GraphNode list \<Rightarrow> PaperContext list" where
  "paperContexts ps ctx =
     map (\<lambda>cp. \<lparr> ctx_arxiv_id = node_id cp, ctx_title = node_title cp,
                 ctx_abstract = node_abstract cp,
                 ctx_pdf_url = js_or_lit (map_option pdf_url (find_paper ps (node_id cp)))
                                 (''https://arxiv.org/pdf/'' @ node_id cp @ ''.pdf'') \<rparr>) ctx"

text \<open>\<^verbatim>\<open>xs.slice(-10)\<close>\<close>

definition last10 :: "'a list \<Rightarrow> 'a list" where
  "last10 xs = drop (length xs - 10) xs"

text \<open>
  \<^verbatim>\<open>sendChatMessage\<close> up to its \<^verbatim>\<open>await fetch\<close>: \<open>None\<close> when the guard returns at once,
  else the new state and the request sent.
\<close>

definition sendChatMessage_begin :: "string \<Rightarrow> Home \<Rightarrow> (Home \<times> ChatRequest) option" where
  "sendChatMessage_begin message s =
     (if blank message \<or> contextPapers s = [] \<or> chatLoading s then None
      else Some
        (s\<lparr> chatMessages := chatMessages s @ [\<lparr> role = User, content = message \<rparr>],
            chatInput := [], chatLoading := True \<rparr>,
         \<lparr> req_message = message,
           req_papers = paperContexts (papers s) (contextPapers s),
           req_history = last10 (chatMessages s),
           req_parse_pdfs = True,
           req_use_web_search = webSearchEnabled s \<rparr>))"

definition chat_fallback :: string where
  "chat_fallback = ''Sorry, there was an error processing your request. Please try again.''"

text \<open>
  The rest of \<^verbatim>\<open>sendChatMessage\<close> once the call has answered, \<^verbatim>\<open>catch\<close> and \<^verbatim>\<open>finally\<close>
  included. \<open>ChatNotOk\<close> carries the status as the text \<^verbatim>\<open>${response.status}\<close>.
\<close>

definition sendChatMessage_end :: "chat_outcome \<Rightarrow> Home \<Rightarrow> Home" where
  "sendChatMessage_end outcome s =
     (case outcome of
        ChatOk response \<Rightarrow>
          s\<lparr> chatMessages := chatMessages s @ [\<lparr> role = Assistant, content = response \<rparr>],
             chatLoading := False \<rparr>
      | ChatNotOk status \<Rightarrow>
          s\<lparr> console := console s @ [(''Chat error:'', ''Chat failed: '' @ status)],
             chatMessages := chatMessages s @ [\<lparr> role = Assistant, content = chat_fallback \<rparr>],
             chatLoading := False \<rparr>
      | ChatThrow e \<Rightarrow>
          s\<lparr> console := console s @ [(''Chat error:'', e)],
             chatMessages := chatMessages s @ [\<lparr> role = Assistant, content = chat_fallback \<rparr>],
             chatLoading := False \<rparr>)"

section \<open>Vocabulary of the properties\<close>

text \<open>The unordered pair of node ids a link joins.\<close>

definition link_pair :: "GraphLink \<Rightarrow> string set" where
  "link_pair l = {endpoint_id (link_source l), endpoint_id (link_target l)}"

text \<open>The similarity edges of a graph: the links pushed with \<^verbatim>\<open>isCitation: false\<close>.\<close>

definition similarity_edges :: "GraphData \<Rightarrow> GraphLink list" where
  "similarity_edges g = filter (\<lambda>l. isCitation l = Some False) (links g)"

text \<open>Paper \<open>p\<close> lists the id \<open>i\<close> among its neighbours.\<close>

definition lists_neighbor :: "Paper \<Rightarrow> string \<Rightarrow> bool" where
  "lists_neighbor p i = (case neighbors p of None \<Rightarrow> False | Some ns \<Rightarrow> i \<in> set ns)"

section \<open>Example data\<close>

definition example_paper ::
  "string \<Rightarrow> int option \<Rightarrow> string option \<Rightarrow> real option \<Rightarrow> string list option \<Rightarrow> real \<Rightarrow> Paper" where
  "example_paper i c cn xy ns cc =
     \<lparr> arxiv_id = i, title = ''Paper '' @ i, abstract = [], authors = [],
       published = ''2020-01-01'', pdf_url = [], paper_categories = [], cluster = c,
       cluster_name = cn, paper_x = xy, paper_y = xy, neighbors = ns,
       citation_count = cc, references = None \<rparr>"

definition example_node :: "string \<Rightarrow> int \<Rightarrow> GraphNode" where
  "example_node i c =
     \<lparr> node_id = i, node_title = ''Paper '' @ i, node_abstract = [], node_authors = [],
       node_published = ''2020-01-01'', node_cluster = Some c, node_cluster_name = ''Unknown'',
       node_color = ''#666'', node_x = 0, node_y = 0, node_fx = None, node_fy = None,
       node_citation_count = 0, pulse_intensity = 0, node_vx = None, node_vy = None \<rparr>"

text \<open>
  Nodes A and C in cluster 1, node B in cluster 2; an edge A--B by raw ids and an edge A--C
  whose source the renderer has resolved to the node.
\<close>

definition example_graph :: GraphData where
  "example_graph =
     \<lparr> nodes = [example_node ''A'' 1, example_node ''B'' 2, example_node ''C'' 1],
       links = [\<lparr> link_source = EId ''A'', link_target = EId ''B'', isCitation = Some False \<rparr>,
                \<lparr> link_source = ERef (example_node ''A'' 1), link_target = EId ''C'',
                  isCitation = Some False \<rparr>] \<rparr>"

text \<open>
  Papers 1 and 2 list each other as neighbours, paper 3 cites paper 1; none has a cluster
  with a category.
\<close>

definition example_papers :: "Paper list" where
  "example_papers =
     [example_paper ''1'' (Some 7) None (Some 1) (Some [''2'']) 4,
      example_paper ''2'' (Some 7) (Some ''Vision'') (Some 2) (Some [''1'']) 2,
      example_paper ''3'' None None (Some 3) None 1]"

text \<open>
  A category table with one entry, for cluster 1: clusters 7 and \<^verbatim>\<open>null\<close> of the example
  papers have none.
\<close>

definition example_categories :: "Category list" where
  "example_categories =
     [\<lparr> cat_id = 1, cat_name = ''Theory'', cat_description = [], cat_color = ''#ff0000'',
        cat_count = 1 \<rparr>]"

text \<open>A session with one paper in the context dock and one message in the chat.\<close>

definition example_session :: Home where
  "example_session =
     initial_Home \<lparr> query := ''graph neural networks'',
                    contextPapers := [example_node ''A'' 1],
                    chatMessages := [\<lparr> role = User, content = ''What is new here?'' \<rparr>] \<rparr>"

text \<open>Paper A has just been dropped on the dock; the effect has not run yet.\<close>

definition example_dropped :: Home where
  "example_dropped = initial_Home \<lparr> contextPapers := [example_node ''A'' 1] \<rparr>"

section \<open>Auxiliary facts\<close>

lemma not_in_imageD: "a \<notin> f ` A \<Longrightarrow> x \<in> A \<Longrightarrow> f x \<noteq> a"
  by auto

lemma count_one:
  "distinct (map f xs) \<Longrightarrow> a \<in> set (map f xs) \<Longrightarrow> length (filter (\<lambda>p. f p = a) xs) = 1"
proof (induction xs)
  case Nil then show ?case by simp
next
  case (Cons x xs)
  show ?case
  proof (cases "f x = a")
    case True
    with Cons.prems have "filter (\<lambda>p. f p = a) xs = []"
      by (auto simp: filter_empty_conv dest: not_in_imageD)
    with True show ?thesis by simp
  next
    case False
    with Cons show ?thesis by auto
  qed
qed

section \<open>White space\<close>

text \<open>
  A no-break space, a line separator, a byte order mark and an ideographic space are
  trimmed like the ASCII white space; a query or a message made of them is refused at the
  guard.
\<close>

lemma blank_examples:
  "blank [CHR 0xC2, CHR 0xA0]"
  "blank [CHR 0x20, CHR 0xE2, CHR 0x80, CHR 0xA8, CHR 0xEF, CHR 0xBB, CHR 0xBF, CHR 0x0A]"
  "blank [CHR 0xE3, CHR 0x80, CHR 0x80, CHR 0x09]"
  "\<not> blank ''  a  ''"
  "\<not> blank [CHR 0xC2, CHR 0xA0, CHR ''q'']"
  by (simp_all add: is_space_def is_space3_def)

lemma nbsp_query_refused:
  "handleSearch_begin (s\<lparr> query := [CHR 0xC2, CHR 0xA0] \<rparr>) = None"
  by (simp add: handleSearch_begin_def is_space_def)

lemma nbsp_message_refused:
  "sendChatMessage_begin [CHR 0xC2, CHR 0xA0] s = None"
  by (simp add: sendChatMessage_begin_def is_space_def)

section \<open>Filter engine: edge validity\<close>

text \<open>
  Claim C1. Whatever the full graph, the set of visible clusters and the optional date
  cutoff, every link of the filtered graph has the id of its source and the id of its
  target among the ids of the filtered nodes; an end that is a node reference counts by the
  node's id. No visible edge has an invisible end.
\<close>

theorem filtered_links_endpoints_visible:
  assumes "filteredGraphData gd visible cutoff parseDate ps = Some fg"
    and "l \<in> set (links fg)"
  shows "endpoint_id (link_source l) \<in> set (map node_id (nodes fg)) \<and>
         endpoint_id (link_target l) \<in> set (map node_id (nodes fg))"
  using assms
  by (auto simp: filteredGraphData_def link_visible_def Let_def split: option.splits)

text \<open>
  Cluster 2 is hidden: node B goes, the edge A--B goes with it, and the edge A--C, whose
  source is a node reference, stays.
\<close>

theorem filtered_links_endpoints_visible_witness:
  "filteredGraphData (Some example_graph) {1} None (\<lambda>d. None) [] =
     Some \<lparr> nodes = [example_node ''A'' 1, example_node ''C'' 1],
            links = [\<lparr> link_source = ERef (example_node ''A'' 1), link_target = EId ''C'',
                       isCitation = Some False \<rparr>] \<rparr> \<and>
   endpoint_id (ERef (example_node ''A'' 1)) \<in> {''A'', ''C''} \<and>
   endpoint_id (EId ''C'') \<in> {''A'', ''C''}"
proof -
  let ?l = "\<lparr> link_source = ERef (example_node ''A'' 1), link_target = EId ''C'',
               isCitation = Some False \<rparr>"
  let ?fg = "\<lparr> nodes = [example_node ''A'' 1, example_node ''C'' 1], links = [?l] \<rparr>"
  have h1: "filteredGraphData (Some example_graph) {1} None (\<lambda>d. None) [] = Some ?fg"
    by (simp add: filteredGraphData_def example_graph_def node_visible_def link_visible_def
          example_node_def Let_def)
  have h2: "?l \<in> set (links ?fg)" by simp
  from filtered_links_endpoints_visible [OF h1 h2] h1 show ?thesis
    by (simp add: example_node_def)
qed

section \<open>Filter engine: nodes without a paper\<close>

text \<open>
  Claim C10. A node of the full graph whose id matches no paper of the current paper list
  is never excluded by the date cutoff: when its cluster is visible, the filter returns a
  graph and the node is among its nodes, whatever the cutoff and the date parser.
\<close>

theorem unmatched_node_ignores_cutoff:
  assumes "node \<in> set (nodes g)"
    and "node_id node \<notin> set (map arxiv_id ps)"
    and "node_cluster node = Some c" and "c \<in> visible"
  shows "\<exists>fg. filteredGraphData (Some g) visible cutoff parseDate ps = Some fg \<and>
              node \<in> set (nodes fg)"
proof -
  have "find_paper ps (node_id node) = None"
    using assms(2) by (auto simp: find_paper_def find_None_iff dest: not_in_imageD)
  then have "node_visible visible cutoff parseDate ps node"
    using assms(3,4) by (simp add: node_visible_def split: option.splits)
  then show ?thesis
    using assms(1) by (simp add: filteredGraphData_def Let_def)
qed

text \<open>
  A cutoff is set and every paper is older than it: node A, which has a paper, is filtered
  out; node C, which has none, stays.
\<close>

theorem unmatched_node_ignores_cutoff_witness:
  "example_node ''C'' 1 \<in> set (nodes example_graph) \<and>
   node_id (example_node ''C'' 1) \<notin> set (map arxiv_id [example_paper ''A'' (Some 1) None (Some 0) None 0]) \<and>
   node_cluster (example_node ''C'' 1) = Some 1 \<and> (1::int) \<in> {1} \<and>
   filteredGraphData (Some example_graph) {1} (Some 1000) (\<lambda>d. Some 0)
       [example_paper ''A'' (Some 1) None (Some 0) None 0] =
     Some \<lparr> nodes = [example_node ''C'' 1], links = [] \<rparr>"
proof -
  let ?ps = "[example_paper ''A'' (Some 1) None (Some 0) None 0]"
  have h1: "example_node ''C'' 1 \<in> set (nodes example_graph)"
    by (simp add: example_graph_def)
  have h2: "node_id (example_node ''C'' 1) \<notin> set (map arxiv_id ?ps)"
    by (simp add: example_node_def example_paper_def)
  have h3: "node_cluster (example_node ''C'' 1) = Some 1"
    by (simp add: example_node_def)
  have h4: "(1::int) \<in> {1}" by simp
  have "filteredGraphData (Some example_graph) {1} (Some 1000) (\<lambda>d. Some 0) ?ps =
     Some \<lparr> nodes = [example_node ''C'' 1], links = [] \<rparr>"
    using unmatched_node_ignores_cutoff [OF h1 h2 h3 h4, of "Some 1000" "\<lambda>d. Some 0"]
    by (simp add: filteredGraphData_def example_graph_def node_visible_def link_visible_def
          example_node_def example_paper_def find_paper_def date_before_def Let_def)
  with h1 h2 h3 h4 show ?thesis by simp
qed

section \<open>Context dock: membership diff\<close>

text \<open>
  Claim C7. For every previous snapshot of the context ids and every current context, the
  ids of the papers the diff reports as added are exactly the current ids that are not
  previous ids, and the ids it reports as removed are exactly the previous ids that are not
  current ids.
\<close>

theorem context_diff_complete:
  "set (map node_id (fst (context_diff prevIds ctx))) = set (map node_id ctx) - set prevIds \<and>
   set (snd (context_diff prevIds ctx)) = set prevIds - set (map node_id ctx)"
  by (auto simp: context_diff_def Let_def)

text \<open>Previous membership [A, B], new membership [B, C]: added C, removed A.\<close>

theorem context_diff_complete_witness:
  "set (map node_id (fst (context_diff [''A'', ''B''] [example_node ''B'' 1, example_node ''C'' 1])))
     = {''C''} \<and>
   set (snd (context_diff [''A'', ''B''] [example_node ''B'' 1, example_node ''C'' 1])) = {''A''}"
  using context_diff_complete [of "[''A'', ''B'']" "[example_node ''B'' 1, example_node ''C'' 1]"]
  by (simp add: example_node_def insert_Diff_if)

section \<open>Context dock: adding a paper\<close>

lemma add_to_context_present:
  "node_id n \<in> set (map node_id ctx) \<Longrightarrow> add_to_context n ctx = ctx"
  by (auto simp: add_to_context_def find_None_iff)

lemma add_to_context_absent:
  "node_id n \<notin> set (map node_id ctx) \<Longrightarrow> add_to_context n ctx = ctx @ [n]"
  by (auto simp: add_to_context_def find_None_iff dest: not_in_imageD)

lemma add_to_context_distinct:
  "distinct (map node_id ctx) \<Longrightarrow> distinct (map node_id (add_to_context n ctx))"
  by (cases "node_id n \<in> set (map node_id ctx)")
     (simp_all add: add_to_context_present add_to_context_absent)

lemma add_to_context_member:
  "node_id n \<in> set (map node_id (add_to_context n ctx))"
  by (cases "node_id n \<in> set (map node_id ctx)")
     (simp_all add: add_to_context_present add_to_context_absent)

text \<open>
  Claim C6. Adding to the context set is idempotent. When the id of the dragged node is
  already in the context set, a release leaves the context set as it was, through the
  mouse-up listener (whatever the dock flag) and through the drag-end handler (whatever the
  screen position). When the ids of the context set are distinct, dropping the same id twice
  in the dock zone leaves exactly one entry with that id.
\<close>

theorem context_add_idempotent:
  "(node_id n \<in> set (map node_id (contextPapers s)) \<longrightarrow>
      contextPapers (handleMouseUp (s\<lparr> draggingNodeRef := Some n \<rparr>)) = contextPapers s \<and>
      contextPapers (onNodeDragEnd n coords s) = contextPapers s) \<and>
   (distinct (map node_id (contextPapers s)) \<and> node_id n' = node_id n \<longrightarrow>
      length (filter (\<lambda>p. node_id p = node_id n)
        (contextPapers (handleMouseUp (handleMouseUp
           (s\<lparr> draggingNodeRef := Some n, isNearDockRef := True \<rparr>)
              \<lparr> draggingNodeRef := Some n', isNearDockRef := True \<rparr>)))) = 1 \<and>
      length (filter (\<lambda>p. node_id p = node_id n)
        (add_to_context n' (add_to_context n (contextPapers s)))) = 1)"
proof -
  have twice:
    "length (filter (\<lambda>p. node_id p = node_id n) (add_to_context n' (add_to_context n ctx))) = 1"
    if "distinct (map node_id ctx)" "node_id n' = node_id n" for ctx
  proof -
    have "node_id n' \<in> set (map node_id (add_to_context n ctx))"
      using add_to_context_member [of n ctx] that(2) by simp
    then have "add_to_context n' (add_to_context n ctx) = add_to_context n ctx"
      by (rule add_to_context_present)
    moreover have "distinct (map node_id (add_to_context n ctx))"
      using that(1) by (rule add_to_context_distinct)
    ultimately show ?thesis
      using count_one [of node_id "add_to_context n ctx" "node_id n"]
        add_to_context_member [of n ctx] by simp
  qed
  have "contextPapers (handleMouseUp (s\<lparr> draggingNodeRef := Some n \<rparr>)) = contextPapers s"
    and "contextPapers (onNodeDragEnd n coords s) = contextPapers s"
    if "node_id n \<in> set (map node_id (contextPapers s))"
    using add_to_context_present [OF that]
    by (simp_all add: handleMouseUp_def onNodeDragEnd_def Let_def
          split: option.splits prod.splits)
  moreover have "contextPapers (handleMouseUp (handleMouseUp
           (s\<lparr> draggingNodeRef := Some n, isNearDockRef := True \<rparr>)
              \<lparr> draggingNodeRef := Some n', isNearDockRef := True \<rparr>)) =
        add_to_context n' (add_to_context n (contextPapers s))"
    by (simp add: handleMouseUp_def Let_def)
  ultimately show ?thesis using twice [of "contextPapers s"] by simp
qed

text \<open>Paper A is in the context set already and is dropped again.\<close>

theorem context_add_idempotent_witness:
  "node_id (example_node ''A'' 1) \<in> set (map node_id (contextPapers example_session)) \<and>
   distinct (map node_id (contextPapers example_session)) \<and>
   contextPapers (handleMouseUp
       (example_session\<lparr> draggingNodeRef := Some (example_node ''A'' 1) \<rparr>)) =
     contextPapers example_session \<and>
   contextPapers (onNodeDragEnd (example_node ''A'' 1) (Some (10, 20)) example_session) =
     contextPapers example_session \<and>
   length (filter (\<lambda>p. node_id p = node_id (example_node ''A'' 1))
     (add_to_context (example_node ''A'' 2)
        (add_to_context (example_node ''A'' 1) (contextPapers example_session)))) = 1"
proof -
  have h1: "node_id (example_node ''A'' 1) \<in> set (map node_id (contextPapers example_session))"
    by (simp add: example_session_def example_node_def)
  have h2: "distinct (map node_id (contextPapers example_session))"
    by (simp add: example_session_def)
  have h3: "node_id (example_node ''A'' 2) = node_id (example_node ''A'' 1)"
    by (simp add: example_node_def)
  from context_add_idempotent [of "example_node ''A'' 1" example_session "Some (10, 20)"
      "example_node ''A'' 2"] h1 h2 h3
  show ?thesis by blast
qed

section \<open>Graph builder: nodes\<close>

lemma member_build_nodes:
  "p \<in> set ps \<Longrightarrow> has_coords p \<Longrightarrow> make_node cats m p \<in> set (build_nodes ps cats m)"
  by (simp add: build_nodes_def)

lemma nodes_buildGraphData: "nodes (buildGraphData ps cats cls m) = build_nodes ps cats m"
  by (simp add: buildGraphData_def Let_def)

text \<open>
  Claim C5. For every paper with a valid coordinate and every \<open>maxCitations\<close> passed to the
  builder, the node built from the paper is in the output; its pulse intensity is the
  paper's citation count divided by \<open>maxCitations\<close>, clamped above at 1, when
  \<open>maxCitations\<close> is positive, and 0 when \<open>maxCitations\<close> is 0; and it lies in [0, 1]. A
  citation count is the number of citing papers, so it is not negative.
\<close>

theorem pulse_intensity_clamped:
  assumes "p \<in> set ps" and "has_coords p" and "0 \<le> citation_count p"
  shows "make_node cats m p \<in> set (nodes (buildGraphData ps cats cls m)) \<and>
         (0 < m \<longrightarrow> pulse_intensity (make_node cats m p) = min 1 (citation_count p / m)) \<and>
         (m = 0 \<longrightarrow> pulse_intensity (make_node cats m p) = 0) \<and>
         0 \<le> pulse_intensity (make_node cats m p) \<and>
         pulse_intensity (make_node cats m p) \<le> 1"
proof -
  have "make_node cats m p \<in> set (nodes (buildGraphData ps cats cls m))"
    using assms(1,2) by (simp add: nodes_buildGraphData member_build_nodes)
  moreover have "pulse_intensity (make_node cats m p) =
      (if 0 < m then min 1 (citation_count p / m) else 0)"
    by (simp add: make_node_def)
  moreover have "0 \<le> citation_count p / m" if "0 < m"
    using assms(3) that by simp
  ultimately show ?thesis by auto
qed

text \<open>
  Paper 2 has 2 citations: with a maximum of 4 the intensity is 1/2, with a maximum of 0 it
  is 0; paper 1 has 4 citations, and against a maximum of 2 its intensity is clamped to 1.
\<close>

theorem pulse_intensity_clamped_witness:
  "example_paper ''2'' (Some 7) (Some ''Vision'') (Some 2) (Some [''1'']) 2 \<in> set example_papers \<and>
   has_coords (example_paper ''2'' (Some 7) (Some ''Vision'') (Some 2) (Some [''1'']) 2) \<and>
   0 \<le> citation_count (example_paper ''2'' (Some 7) (Some ''Vision'') (Some 2) (Some [''1'']) 2) \<and>
   pulse_intensity (make_node example_categories 4
     (example_paper ''2'' (Some 7) (Some ''Vision'') (Some 2) (Some [''1'']) 2)) = 1 / 2 \<and>
   pulse_intensity (make_node example_categories 0
     (example_paper ''2'' (Some 7) (Some ''Vision'') (Some 2) (Some [''1'']) 2)) = 0 \<and>
   pulse_intensity (make_node example_categories 2
     (example_paper ''1'' (Some 7) None (Some 1) (Some [''2'']) 4)) = 1"
proof -
  let ?p = "example_paper ''2'' (Some 7) (Some ''Vision'') (Some 2) (Some [''1'']) 2"
  let ?q = "example_paper ''1'' (Some 7) None (Some 1) (Some [''2'']) 4"
  have h1: "?p \<in> set example_papers" "?q \<in> set example_papers"
    by (simp_all add: example_papers_def)
  have h2: "has_coords ?p" "has_coords ?q" by (simp_all add: example_paper_def has_coords_def)
  have c: "citation_count ?p = 2" "citation_count ?q = 4" by (simp_all add: example_paper_def)
  have h3: "0 \<le> citation_count ?p" "0 \<le> citation_count ?q" by (simp_all add: c)
  from pulse_intensity_clamped [OF h1(1) h2(1) h3(1), of example_categories 4 "[]"]
    pulse_intensity_clamped [OF h1(1) h2(1) h3(1), of example_categories 0 "[]"]
    pulse_intensity_clamped [OF h1(2) h2(2) h3(2), of example_categories 2 "[]"] h1 h2 h3
  show ?thesis by (simp add: c)
qed

lemma fold_upd_other:
  "\<forall>c\<in>set cats. key c \<noteq> k \<Longrightarrow>
   fold (\<lambda>c m. m(key c \<mapsto> val c)) cats m0 k = m0 k"
  by (induction cats arbitrary: m0) auto

lemma map_get_no_entry:
  assumes "\<forall>c\<in>set cats. Some (cat_id c) \<noteq> k"
  shows "map_get (colorMap cats) k = None" and "map_get (nameMap cats) k = None"
proof -
  have "fold (\<lambda>c m. m(cat_id c \<mapsto> val c)) cats Map.empty i = None" if "k = Some i" for i val
    using assms that fold_upd_other [of cats cat_id i val Map.empty] by auto
  then show "map_get (colorMap cats) k = None" and "map_get (nameMap cats) k = None"
    by (auto simp: map_get_def colorMap_def nameMap_def split: option.splits)
qed

text \<open>
  Claim C8, as the code has it. For every paper with a valid coordinate whose cluster id
  has no entry in the category table (a \<^verbatim>\<open>null\<close> cluster has none), the node built from
  the paper is in the output, its colour is the fallback \<^verbatim>\<open>#666\<close>, and its cluster name is
  the paper's own cluster name when that is a non-empty string and \<^verbatim>\<open>Unknown\<close> otherwise.
\<close>

theorem unknown_cluster_fallback:
  assumes "p \<in> set ps" and "has_coords p"
    and "\<forall>c\<in>set cats. Some (cat_id c) \<noteq> cluster p"
  shows "make_node cats m p \<in> set (nodes (buildGraphData ps cats cls m)) \<and>
         node_color (make_node cats m p) = ''#666'' \<and>
         node_cluster_name (make_node cats m p) =
           (case cluster_name p of
              None \<Rightarrow> ''Unknown''
            | Some s \<Rightarrow> if s \<noteq> [] then s else ''Unknown'')"
proof -
  have "make_node cats m p \<in> set (nodes (buildGraphData ps cats cls m))"
    using assms(1,2) by (simp add: nodes_buildGraphData member_build_nodes)
  moreover have "node_color (make_node cats m p) = ''#666''"
    by (simp add: make_node_def map_get_no_entry [OF assms(3)] js_or_lit_def)
  moreover have "node_cluster_name (make_node cats m p) =
      (case cluster_name p of None \<Rightarrow> ''Unknown'' | Some s \<Rightarrow> if s \<noteq> [] then s else ''Unknown'')"
    by (simp add: make_node_def map_get_no_entry [OF assms(3)] js_or_lit_def js_or_def
             split: option.splits)
  ultimately show ?thesis by simp
qed

text \<open>
  Cluster 7 and the \<^verbatim>\<open>null\<close> cluster have no category: paper 2 keeps its own cluster name,
  paper 3, which has none, is labelled \<^verbatim>\<open>Unknown\<close>; both get the fallback colour.
\<close>

theorem unknown_cluster_fallback_witness:
  "example_paper ''2'' (Some 7) (Some ''Vision'') (Some 2) (Some [''1'']) 2 \<in> set example_papers \<and>
   example_paper ''3'' None None (Some 3) None 1 \<in> set example_papers \<and>
   node_color (make_node example_categories 4
     (example_paper ''2'' (Some 7) (Some ''Vision'') (Some 2) (Some [''1'']) 2)) = ''#666'' \<and>
   node_cluster_name (make_node example_categories 4
     (example_paper ''2'' (Some 7) (Some ''Vision'') (Some 2) (Some [''1'']) 2)) = ''Vision'' \<and>
   node_cluster_name (make_node example_categories 4 (example_paper ''3'' None None (Some 3) None 1)) = ''Unknown''"
proof -
  let ?p = "example_paper ''2'' (Some 7) (Some ''Vision'') (Some 2) (Some [''1'']) 2"
  let ?q = "example_paper ''3'' None None (Some 3) None 1"
  have h1: "?p \<in> set example_papers" "?q \<in> set example_papers"
    by (simp_all add: example_papers_def)
  have h2: "has_coords ?p" "has_coords ?q" by (simp_all add: example_paper_def has_coords_def)
  have h3: "\<forall>c\<in>set example_categories. Some (cat_id c) \<noteq> cluster ?p"
    "\<forall>c\<in>set example_categories. Some (cat_id c) \<noteq> cluster ?q"
    by (simp_all add: example_categories_def example_paper_def)
  have c: "cluster_name ?p = Some ''Vision''" "cluster_name ?q = None"
    by (simp_all add: example_paper_def)
  from unknown_cluster_fallback [OF h1(1) h2(1) h3(1), of 4 "[]"]
    unknown_cluster_fallback [OF h1(2) h2(2) h3(2), of 4 "[]"] h1
  show ?thesis by (simp add: c)
qed

text \<open>
  A paper whose cluster has no category and that carries a cluster name of its own is not
  labelled \<^verbatim>\<open>Unknown\<close>; a paper without coordinates gives no node at all.
\<close>

theorem unknown_cluster_counterexample:
  "node_cluster_name (hd (nodes (buildGraphData
      [example_paper ''2'' (Some 7) (Some ''Vision'') (Some 2) None 0] example_categories [] 0))) = ''Vision'' \<and>
   ''Vision'' \<noteq> ''Unknown'' \<and>
   nodes (buildGraphData [example_paper ''4'' (Some 7) None None None 0] example_categories [] 0) = []"
  by (simp add: buildGraphData_def build_nodes_def has_coords_def example_paper_def
        make_node_def js_or_def js_or_lit_def map_get_def nameMap_def example_categories_def
        Let_def)

section \<open>Graph builder: similarity edges\<close>

lemma link_between_iff: "link_between a b l \<longleftrightarrow> link_pair l = {a, b}"
  by (auto simp: link_between_def link_pair_def doubleton_eq_iff)

lemma add_neighbor_cases:
  "add_neighbor ids a b acc = acc \<or>
   (b \<in> ids \<and> {a, b} \<notin> set (map link_pair acc) \<and>
    add_neighbor ids a b acc =
      acc @ [\<lparr> link_source = EId a, link_target = EId b, isCitation = Some False \<rparr>])"
  by (auto simp: add_neighbor_def list_ex_iff link_between_iff)

lemma add_neighbor_distinct:
  assumes "distinct (map link_pair acc)"
  shows "distinct (map link_pair (add_neighbor ids a b acc))"
  using add_neighbor_cases [of ids a b acc] assms
  by (auto simp: link_pair_def)

lemma add_neighbor_sim:
  assumes "\<forall>l\<in>set acc. isCitation l = Some False"
  shows "\<forall>l\<in>set (add_neighbor ids a b acc). isCitation l = Some False"
  using add_neighbor_cases [of ids a b acc] assms by auto

lemma add_neighbor_mono: "set acc \<subseteq> set (add_neighbor ids a b acc)"
  using add_neighbor_cases [of ids a b acc] by auto

lemma add_neighbor_has:
  assumes "b \<in> ids"
  shows "{a, b} \<in> set (map link_pair (add_neighbor ids a b acc))"
proof (cases "list_ex (link_between a b) acc")
  case True
  then show ?thesis
    using assms by (auto simp: add_neighbor_def list_ex_iff link_between_iff)
next
  case False
  then show ?thesis
    using assms by (simp add: add_neighbor_def link_pair_def)
qed

lemma fold_add_neighbor_distinct:
  "distinct (map link_pair acc) \<Longrightarrow>
   distinct (map link_pair (fold (add_neighbor ids a) ns acc))"
  by (induction ns arbitrary: acc) (simp_all add: add_neighbor_distinct)

lemma fold_add_neighbor_sim:
  "\<forall>l\<in>set acc. isCitation l = Some False \<Longrightarrow>
   \<forall>l\<in>set (fold (add_neighbor ids a) ns acc). isCitation l = Some False"
proof (induction ns arbitrary: acc)
  case Nil then show ?case by simp
next
  case (Cons b ns)
  have "\<forall>l\<in>set (add_neighbor ids a b acc). isCitation l = Some False"
    using Cons.prems by (rule add_neighbor_sim)
  from Cons.IH [OF this] show ?case by simp
qed

lemma fold_add_neighbor_mono: "set acc \<subseteq> set (fold (add_neighbor ids a) ns acc)"
proof (induction ns arbitrary: acc)
  case Nil then show ?case by simp
next
  case (Cons b ns)
  have "set acc \<subseteq> set (add_neighbor ids a b acc)" by (rule add_neighbor_mono)
  also have "\<dots> \<subseteq> set (fold (add_neighbor ids a) ns (add_neighbor ids a b acc))"
    by (rule Cons.IH)
  finally show ?case by simp
qed

lemma fold_add_neighbor_has:
  "b \<in> set ns \<Longrightarrow> b \<in> ids \<Longrightarrow>
   {a, b} \<in> set (map link_pair (fold (add_neighbor ids a) ns acc))"
proof (induction ns arbitrary: acc)
  case Nil then show ?case by simp
next
  case (Cons c ns)
  show ?case
  proof (cases "b = c")
    case True
    have "{a, b} \<in> set (map link_pair (add_neighbor ids a b acc))"
      using Cons.prems(2) by (rule add_neighbor_has)
    moreover have "set (add_neighbor ids a b acc)
        \<subseteq> set (fold (add_neighbor ids a) ns (add_neighbor ids a b acc))"
      by (rule fold_add_neighbor_mono)
    ultimately show ?thesis using True by auto
  next
    case False
    with Cons.prems have "b \<in> set ns" by simp
    from Cons.IH [OF this Cons.prems(2)] show ?thesis by simp
  qed
qed

lemma add_similarity_distinct:
  "distinct (map link_pair acc) \<Longrightarrow> distinct (map link_pair (add_similarity ids p acc))"
  by (simp add: add_similarity_def fold_add_neighbor_distinct split: option.splits)

lemma add_similarity_sim:
  "\<forall>l\<in>set acc. isCitation l = Some False \<Longrightarrow>
   \<forall>l\<in>set (add_similarity ids p acc). isCitation l = Some False"
  using fold_add_neighbor_sim [of acc ids "arxiv_id p"]
  by (simp add: add_similarity_def split: option.splits)

lemma add_similarity_mono: "set acc \<subseteq> set (add_similarity ids p acc)"
  by (simp add: add_similarity_def fold_add_neighbor_mono split: option.splits)

lemma add_similarity_has:
  "lists_neighbor p b \<Longrightarrow> b \<in> ids \<Longrightarrow>
   {arxiv_id p, b} \<in> set (map link_pair (add_similarity ids p acc))"
  by (auto simp: add_similarity_def lists_neighbor_def fold_add_neighbor_has
           simp del: set_map split: option.splits)

lemma fold_add_similarity_distinct:
  "distinct (map link_pair acc) \<Longrightarrow>
   distinct (map link_pair (fold (add_similarity ids) ps acc))"
  by (induction ps arbitrary: acc) (simp_all add: add_similarity_distinct)

lemma fold_add_similarity_sim:
  "\<forall>l\<in>set acc. isCitation l = Some False \<Longrightarrow>
   \<forall>l\<in>set (fold (add_similarity ids) ps acc). isCitation l = Some False"
proof (induction ps arbitrary: acc)
  case Nil then show ?case by simp
next
  case (Cons p ps)
  have "\<forall>l\<in>set (add_similarity ids p acc). isCitation l = Some False"
    using Cons.prems by (rule add_similarity_sim)
  from Cons.IH [OF this] show ?case by simp
qed

lemma fold_add_similarity_mono: "set acc \<subseteq> set (fold (add_similarity ids) ps acc)"
proof (induction ps arbitrary: acc)
  case Nil then show ?case by simp
next
  case (Cons p ps)
  have "set acc \<subseteq> set (add_similarity ids p acc)" by (rule add_similarity_mono)
  also have "\<dots> \<subseteq> set (fold (add_similarity ids) ps (add_similarity ids p acc))"
    by (rule Cons.IH)
  finally show ?case by simp
qed

lemma fold_add_similarity_has:
  "p \<in> set ps \<Longrightarrow> lists_neighbor p b \<Longrightarrow> b \<in> ids \<Longrightarrow>
   {arxiv_id p, b} \<in> set (map link_pair (fold (add_similarity ids) ps acc))"
proof (induction ps arbitrary: acc)
  case Nil then show ?case by simp
next
  case (Cons q ps)
  show ?case
  proof (cases "p = q")
    case True
    have "{arxiv_id p, b} \<in> set (map link_pair (add_similarity ids p acc))"
      using Cons.prems(2,3) by (rule add_similarity_has)
    moreover have "set (add_similarity ids p acc)
        \<subseteq> set (fold (add_similarity ids) ps (add_similarity ids p acc))"
      by (rule fold_add_similarity_mono)
    ultimately show ?thesis using True by auto
  next
    case False
    with Cons.prems have "p \<in> set ps" by simp
    from Cons.IH [OF this Cons.prems(2,3)] show ?thesis by simp
  qed
qed

lemma filter_sim_add_citation:
  "filter (\<lambda>l. isCitation l = Some False) (fold (add_citation ids) cls acc) =
   filter (\<lambda>l. isCitation l = Some False) acc"
  by (induction cls arbitrary: acc) (simp_all add: add_citation_def)

lemma similarity_edges_buildGraphData:
  "similarity_edges (buildGraphData ps cats cls m) =
   similarity_links (set (map node_id (build_nodes ps cats m))) ps"
proof -
  have "\<forall>l\<in>set (similarity_links (set (map node_id (build_nodes ps cats m))) ps).
          isCitation l = Some False"
    unfolding similarity_links_def by (rule fold_add_similarity_sim) simp
  then have "filter (\<lambda>l. isCitation l = Some False)
               (similarity_links (set (map node_id (build_nodes ps cats m))) ps) =
             similarity_links (set (map node_id (build_nodes ps cats m))) ps"
    by (simp add: filter_id_conv)
  then show ?thesis
    by (simp add: similarity_edges_def buildGraphData_def Let_def filter_sim_add_citation)
qed

lemma node_id_make_node [simp]: "node_id (make_node cats m p) = arxiv_id p"
  by (simp add: make_node_def)

lemma has_coords_node_id:
  "p \<in> set ps \<Longrightarrow> has_coords p \<Longrightarrow> arxiv_id p \<in> set (map node_id (build_nodes ps cats m))"
  by (force simp: build_nodes_def)

text \<open>
  Claim C4. No two similarity edges of the built graph join the same unordered pair of
  ids. When two papers A and B of the input, both with valid coordinates, list each other
  as neighbours, exactly one similarity edge joins the pair of their ids.
\<close>

theorem similarity_edges_deduplicated:
  "distinct (map link_pair (similarity_edges (buildGraphData ps cats cls m))) \<and>
   (A \<in> set ps \<and> B \<in> set ps \<and> has_coords A \<and> has_coords B \<and>
    lists_neighbor A (arxiv_id B) \<and> lists_neighbor B (arxiv_id A) \<longrightarrow>
    length (filter (\<lambda>l. link_pair l = {arxiv_id A, arxiv_id B})
              (similarity_edges (buildGraphData ps cats cls m))) = 1)"
proof -
  let ?ids = "set (map node_id (build_nodes ps cats m))"
  let ?sim = "similarity_edges (buildGraphData ps cats cls m)"
  have sim: "?sim = fold (add_similarity ?ids) ps []"
    by (simp add: similarity_edges_buildGraphData similarity_links_def)
  have d: "distinct (map link_pair ?sim)"
    unfolding sim by (rule fold_add_similarity_distinct) simp
  have "length (filter (\<lambda>l. link_pair l = {arxiv_id A, arxiv_id B}) ?sim) = 1"
    if "A \<in> set ps" "B \<in> set ps" "has_coords B" "lists_neighbor A (arxiv_id B)"
  proof -
    have "arxiv_id B \<in> ?ids"
      using that(2,3) by (rule has_coords_node_id)
    with that(1,4) have "{arxiv_id A, arxiv_id B} \<in> set (map link_pair ?sim)"
      unfolding sim by (rule fold_add_similarity_has)
    with d show ?thesis by (rule count_one)
  qed
  with d show ?thesis by blast
qed

text \<open>
  The scenario of three papers: one similarity edge 1--2, one citation edge 3 to 1.
\<close>

lemma example_build:
  "buildGraphData example_papers example_categories [\<lparr> cl_source = ''3'', cl_target = ''1'' \<rparr>] 4 =
     \<lparr> nodes = map (make_node example_categories 4) example_papers,
       links = [\<lparr> link_source = EId ''1'', link_target = EId ''2'', isCitation = Some False \<rparr>,
                \<lparr> link_source = EId ''3'', link_target = EId ''1'', isCitation = Some True \<rparr>] \<rparr>"
  by (simp add: buildGraphData_def build_nodes_def example_papers_def example_paper_def
        has_coords_def similarity_links_def add_similarity_def add_neighbor_def
        add_citation_def link_between_def Let_def)

theorem similarity_edges_deduplicated_witness:
  "example_paper ''1'' (Some 7) None (Some 1) (Some [''2'']) 4 \<in> set example_papers \<and>
   example_paper ''2'' (Some 7) (Some ''Vision'') (Some 2) (Some [''1'']) 2 \<in> set example_papers \<and>
   has_coords (example_paper ''1'' (Some 7) None (Some 1) (Some [''2'']) 4) \<and>
   has_coords (example_paper ''2'' (Some 7) (Some ''Vision'') (Some 2) (Some [''1'']) 2) \<and>
   lists_neighbor (example_paper ''1'' (Some 7) None (Some 1) (Some [''2'']) 4) ''2'' \<and>
   lists_neighbor (example_paper ''2'' (Some 7) (Some ''Vision'') (Some 2) (Some [''1'']) 2) ''1'' \<and>
   length (filter (\<lambda>l. link_pair l = {''1'', ''2''})
     (similarity_edges (buildGraphData example_papers example_categories
        [\<lparr> cl_source = ''3'', cl_target = ''1'' \<rparr>] 4))) = 1 \<and>
   distinct (map link_pair
     (similarity_edges (buildGraphData example_papers example_categories
        [\<lparr> cl_source = ''3'', cl_target = ''1'' \<rparr>] 4)))"
proof -
  let ?A = "example_paper ''1'' (Some 7) None (Some 1) (Some [''2'']) 4"
  let ?B = "example_paper ''2'' (Some 7) (Some ''Vision'') (Some 2) (Some [''1'']) 2"
  have h: "?A \<in> set example_papers \<and> ?B \<in> set example_papers \<and> has_coords ?A \<and> has_coords ?B \<and>
           lists_neighbor ?A (arxiv_id ?B) \<and> lists_neighbor ?B (arxiv_id ?A)"
    by (simp add: example_papers_def example_paper_def has_coords_def lists_neighbor_def)
  have ids: "arxiv_id ?A = ''1''" "arxiv_id ?B = ''2''"
    by (simp_all add: example_paper_def)
  from similarity_edges_deduplicated [of example_papers example_categories
      "[\<lparr> cl_source = ''3'', cl_target = ''1'' \<rparr>]" 4 ?A ?B] h
  show ?thesis unfolding ids by blast
qed

section \<open>Search coordinator: what a new search clears\<close>

text \<open>
  Claim C2, as the code has it. A search with a query that is not blank, started while no search
  is in flight, reaches the call of the search collaborator with the graph, the papers, the
  categories, the expanded queries and the date filter cleared (no cutoff is left). The
  context set and the chat transcript are what they were before the search.
\<close>

theorem search_clears_results_keeps_session:
  assumes "\<not> blank (query s)" and "\<not> isLoading s"
  shows "\<exists>s'. handleSearch_until_call s = Some s' \<and>
           graphData s' = None \<and> papers s' = [] \<and> categories s' = [] \<and>
           expandedQueries s' = [] \<and> dateFilter s' = ''all'' \<and>
           dateFilterCutoff yearsAgo (dateFilter s') = None \<and>
           contextPapers s' = contextPapers s \<and> chatMessages s' = chatMessages s"
  using assms
  by (simp add: handleSearch_until_call_def handleSearch_begin_def handleSearch_call_def
        dateFilterCutoff_def)

text \<open>
  A search started in a session with one context paper and one chat message.
\<close>

theorem search_clears_results_keeps_session_witness:
  "\<not> blank (query example_session) \<and> \<not> isLoading example_session \<and>
   (\<exists>s'. handleSearch_until_call example_session = Some s' \<and>
      graphData s' = None \<and> papers s' = [] \<and> categories s' = [] \<and>
      expandedQueries s' = [] \<and> dateFilter s' = ''all'' \<and>
      dateFilterCutoff (\<lambda>k. 0) (dateFilter s') = None \<and>
      contextPapers s' = [example_node ''A'' 1] \<and>
      chatMessages s' = [\<lparr> role = User, content = ''What is new here?'' \<rparr>])"
proof -
  have h1: "\<not> blank (query example_session)"
    by (simp add: example_session_def initial_Home_def is_space_def is_space3_def)
  have h2: "\<not> isLoading example_session"
    by (simp add: example_session_def initial_Home_def)
  have c: "contextPapers example_session = [example_node ''A'' 1]"
    "chatMessages example_session = [\<lparr> role = User, content = ''What is new here?'' \<rparr>]"
    by (simp_all add: example_session_def initial_Home_def)
  from search_clears_results_keeps_session [OF h1 h2, of "\<lambda>k. 0"] h1 h2
  show ?thesis unfolding c by blast
qed

text \<open>
  The search collaborator is called with the context paper still in the context set and
  the message still in the transcript.
\<close>

theorem search_keeps_context_counterexample:
  "map_option contextPapers (handleSearch_until_call example_session) =
     Some [example_node ''A'' 1] \<and>
   map_option chatMessages (handleSearch_until_call example_session) =
     Some [\<lparr> role = User, content = ''What is new here?'' \<rparr>]"
  by (simp add: handleSearch_until_call_def handleSearch_begin_def handleSearch_call_def
        example_session_def initial_Home_def is_space_def is_space3_def)

section \<open>Chat session: a failed call\<close>

text \<open>
  Claim C9. When the chat call fails (a response that is not ok, or a thrown error), the
  rest of the send appends exactly one message to the log, of the assistant role and with
  the fixed fallback text, logs one chat error, and clears the in-flight flag; the context
  set is untouched, so the next send of a non-blank message with a non-empty context set is
  not refused.
\<close>

theorem chat_failure_fallback:
  assumes "\<forall>r. outcome \<noteq> ChatOk r"
  shows "chatMessages (sendChatMessage_end outcome s) =
           chatMessages s @ [\<lparr> role = Assistant, content = chat_fallback \<rparr>] \<and>
         (\<exists>e. console (sendChatMessage_end outcome s) = console s @ [(''Chat error:'', e)]) \<and>
         \<not> chatLoading (sendChatMessage_end outcome s) \<and>
         contextPapers (sendChatMessage_end outcome s) = contextPapers s \<and>
         (\<not> blank message \<and> contextPapers s \<noteq> [] \<longrightarrow>
            sendChatMessage_begin message (sendChatMessage_end outcome s) \<noteq> None)"
  using assms
  by (cases outcome) (simp_all add: sendChatMessage_end_def sendChatMessage_begin_def)

text \<open>
  The chat backend answers 500: the fallback is appended and the next send goes through.
\<close>

theorem chat_failure_fallback_witness:
  "(\<forall>r. ChatNotOk ''500'' \<noteq> ChatOk r) \<and>
   chatMessages (sendChatMessage_end (ChatNotOk ''500'') example_session) =
     [\<lparr> role = User, content = ''What is new here?'' \<rparr>,
      \<lparr> role = Assistant, content = chat_fallback \<rparr>] \<and>
   \<not> chatLoading (sendChatMessage_end (ChatNotOk ''500'') example_session) \<and>
   sendChatMessage_begin ''And now?'' (sendChatMessage_end (ChatNotOk ''500'') example_session)
     \<noteq> None"
proof -
  have h: "\<forall>r. ChatNotOk ''500'' \<noteq> ChatOk r" by simp
  have c: "chatMessages example_session = [\<lparr> role = User, content = ''What is new here?'' \<rparr>]"
    "contextPapers example_session \<noteq> []" "\<not> blank ''And now?''"
    by (simp_all add: example_session_def initial_Home_def is_space_def is_space3_def)
  from chat_failure_fallback [OF h, of example_session "''And now?''"] c h
  show ?thesis by simp
qed

section \<open>Parse jobs: the two status sets\<close>

lemma announce_sets:
  "parsedPapers (announce_added n s) = parsedPapers s"
  "parsingPapers (announce_added n s) = parsingPapers s"
  "parsedPapers (announce_removed ps i s) = parsedPapers s"
  "parsingPapers (announce_removed ps i s) = parsingPapers s"
  by (simp_all add: announce_added_def announce_removed_def split: option.splits)

lemma fold_announce_added_sets:
  "parsedPapers (fold announce_added ns s) = parsedPapers s \<and>
   parsingPapers (fold announce_added ns s) = parsingPapers s"
  by (induction ns arbitrary: s) (simp_all add: announce_sets)

lemma fold_announce_removed_sets:
  "parsedPapers (fold (announce_removed ps) is s) = parsedPapers s \<and>
   parsingPapers (fold (announce_removed ps) is s) = parsingPapers s"
  by (induction "is" arbitrary: s) (simp_all add: announce_sets)

lemma start_parse_sets:
  "parsedPapers (start_parse P0 G0 ps n s) = parsedPapers s \<and>
   parsingPapers (start_parse P0 G0 ps n s) \<subseteq> parsingPapers s \<union> (- P0)"
  by (auto simp: start_parse_def Let_def)

lemma fold_start_parse_sets:
  "parsedPapers (fold (start_parse P0 G0 ps) ns s) = parsedPapers s \<and>
   parsingPapers (fold (start_parse P0 G0 ps) ns s) \<subseteq> parsingPapers s \<union> (- P0)"
proof (induction ns arbitrary: s)
  case Nil then show ?case by simp
next
  case (Cons n ns)
  from Cons.IH [of "start_parse P0 G0 ps n s"] start_parse_sets [of P0 G0 ps n s]
  show ?case by auto
qed

lemma context_effect_disjoint:
  assumes "parsingPapers s \<inter> parsedPapers s = {}"
  shows "parsingPapers (context_effect s) \<inter> parsedPapers (context_effect s) = {}"
proof -
  define s1 where "s1 = (if chatMessages s \<noteq> [] \<or> chatOpen s
      then fold (announce_removed (papers s)) (snd (context_diff (prevContextPapersRef s) (contextPapers s)))
             (fold announce_added (fst (context_diff (prevContextPapersRef s) (contextPapers s))) s)
      else s)"
  define s2 where "s2 = fold (start_parse (parsedPapers s) (parsingPapers s) (papers s))
      (fst (context_diff (prevContextPapersRef s) (contextPapers s))) s1"
  have s1: "parsedPapers s1 = parsedPapers s" "parsingPapers s1 = parsingPapers s"
    by (simp_all add: s1_def fold_announce_added_sets fold_announce_removed_sets)
  have "parsedPapers s2 = parsedPapers s1 \<and>
        parsingPapers s2 \<subseteq> parsingPapers s1 \<union> (- parsedPapers s)"
    unfolding s2_def by (rule fold_start_parse_sets)
  with s1 assms have "parsingPapers s2 \<inter> parsedPapers s2 = {}" by auto
  moreover have "context_effect s = s2\<lparr> prevContextPapersRef := map node_id (contextPapers s) \<rparr>"
    by (simp add: context_effect_def Let_def s1_def s2_def)
  ultimately show ?thesis by simp
qed

lemma apply_updates_simps [simp]:
  "apply_updates [] s = s"
  "apply_updates (u # us) s = apply_updates us (apply_update u s)"
  by (simp_all add: apply_updates_def)

lemma resume_sets:
  "parsingPapers (resume k (us, logs, next) s) = parsingPapers (apply_updates us s)"
  "parsedPapers (resume k (us, logs, next) s) = parsedPapers (apply_updates us s)"
  by (simp_all add: resume_def)

lemma submit_disjoint:
  assumes "parsingPapers s \<inter> parsedPapers s = {}"
  shows "parsingPapers (resume k (on_submit_response pid r) s) \<inter>
         parsedPapers (resume k (on_submit_response pid r) s) = {}"
  using assms
  by (cases r) (auto simp: on_submit_response_def resume_sets)

lemma poll_disjoint:
  assumes "parsingPapers s \<inter> parsedPapers s = {}"
  shows "parsingPapers (resume k (on_poll_response pid jobId i r) s) \<inter>
         parsedPapers (resume k (on_poll_response pid jobId i r) s) = {}"
  using assms
  by (cases r) (auto simp: on_poll_response_def resume_sets)

text \<open>
  The handlers outside the orchestration fall under its last rule: they leave the two sets
  and the waiting jobs alone.
\<close>

lemma handlers_orchestrate:
  "orchestrate s (onNodeDrag n coords s)"
  "orchestrate s (handleMouseUp s)"
  "orchestrate s (onNodeDragEnd n coords s)"
  "orchestrate s (removeFromContext i s)"
  "orchestrate s (handleSearch_call s)"
  "orchestrate s (handleSearch_result found s)"
  "orchestrate s (sendChatMessage_end outcome s)"
  by (rule orchestrate.other;
      simp add: onNodeDrag_def handleMouseUp_def onNodeDragEnd_def removeFromContext_def
        handleSearch_call_def handleSearch_result_def sendChatMessage_end_def Let_def
        split: option.splits prod.splits search_outcome.splits chat_outcome.splits)+

lemma guarded_handlers_orchestrate:
  "handleSearch_begin s = Some s' \<Longrightarrow> orchestrate s s'"
  "sendChatMessage_begin message s = Some (s'', req) \<Longrightarrow> orchestrate s s''"
  by (rule orchestrate.other;
      auto simp: handleSearch_begin_def sendChatMessage_begin_def split: if_splits)+

lemma orchestrate_disjoint:
  assumes "orchestrate s s'" and "parsingPapers s \<inter> parsedPapers s = {}"
  shows "parsingPapers s' \<inter> parsedPapers s' = {}"
  using assms
proof (induction rule: orchestrate.induct)
  case (effect s) then show ?case by (rule context_effect_disjoint)
next
  case (submitted k s pid url r) then show ?case by (simp add: submit_disjoint)
next
  case (polled k s pid jobId i r) then show ?case by (simp add: poll_disjoint)
next
  case (other s' s) then show ?case by simp
qed

text \<open>
  Paper A is dropped on the dock and the effect runs: A is being parsed and its job waits
  for the answer to the submission.
\<close>

lemma reachable_example_effect: "reachable (context_effect example_dropped)"
proof -
  have "orchestrate initial_Home example_dropped"
    by (rule orchestrate.other) (simp_all add: example_dropped_def)
  moreover have "orchestrate example_dropped (context_effect example_dropped)"
    by (rule orchestrate.effect)
  ultimately show ?thesis unfolding reachable_def by (meson rtranclp.simps)
qed

lemma example_effect_sets:
  "parsingPapers (context_effect example_dropped) = {''A''}"
  "parsedPapers (context_effect example_dropped) = {}"
  "parseJobs (context_effect example_dropped) = [AwaitSubmit ''A'' ''https://arxiv.org/pdf/A.pdf'']"
  by (simp_all add: context_effect_def example_dropped_def initial_Home_def context_diff_def
        start_parse_def example_node_def find_paper_def js_or_lit_def Let_def)

text \<open>
  Claim C3. At every observable point of the orchestration, no paper id is in the parsing
  set and in the parsed set at once. The observable points are the states committed after
  a synchronous run: after the effect, and after a job has run from one \<^verbatim>\<open>await\<close> to the
  next or to its end (submission, cached result, poll, completion, failure, clean-up), the
  runs of the jobs and the other handlers interleaving in any order.
\<close>

theorem parse_sets_disjoint_between_runs:
  assumes "reachable s"
  shows "parsingPapers s \<inter> parsedPapers s = {}"
proof -
  from assms have "orchestrate\<^sup>*\<^sup>* initial_Home s" by (simp add: reachable_def)
  then show ?thesis
  proof (induction rule: rtranclp_induct)
    case base show ?case by (simp add: initial_Home_def)
  next
    case (step y z)
    from step(2,3) show ?case by (rule orchestrate_disjoint)
  qed
qed

text \<open>
  The submission of paper A is answered from the cache; once the job has run to its end, A
  is parsed and no longer being parsed.
\<close>

theorem parse_sets_disjoint_between_runs_witness:
  "reachable (resume 0 (on_submit_response ''A'' (SubmitOk True ''completed'' ''job-1''))
      (context_effect example_dropped)) \<and>
   parsingPapers (resume 0 (on_submit_response ''A'' (SubmitOk True ''completed'' ''job-1''))
      (context_effect example_dropped)) \<inter>
   parsedPapers (resume 0 (on_submit_response ''A'' (SubmitOk True ''completed'' ''job-1''))
      (context_effect example_dropped)) = {} \<and>
   parsedPapers (resume 0 (on_submit_response ''A'' (SubmitOk True ''completed'' ''job-1''))
      (context_effect example_dropped)) = {''A''}"
proof -
  let ?s = "context_effect example_dropped"
  let ?t = "resume 0 (on_submit_response ''A'' (SubmitOk True ''completed'' ''job-1'')) ?s"
  have "orchestrate ?s ?t"
    by (rule orchestrate.submitted [where url = "''https://arxiv.org/pdf/A.pdf''"])
       (simp_all add: example_effect_sets)
  with reachable_example_effect have r: "reachable ?t"
    unfolding reachable_def by (rule rtranclp.rtrancl_into_rtrancl)
  have p: "parsedPapers ?t = {''A''}"
    by (simp add: resume_def on_submit_response_def example_effect_sets)
  from parse_sets_disjoint_between_runs [OF r] r p show ?thesis by simp
qed

end
